theory Spec2Isabelle
  imports Complex_Main
begin

section \<open>Python values, exceptions and effects\<close>

text \<open>
  The development embeds \<^verbatim>\<open>agent/src/agent.py\<close>: the environment check at the top of the
  module, \<^verbatim>\<open>load_mcp_config\<close>, \<^verbatim>\<open>initialize_model\<close>, \<^verbatim>\<open>tavily_search\<close> and the
  sequence of statements of the module body up to \<^verbatim>\<open>uvicorn.run\<close>.

  Exceptions are values. \<open>exn_class\<close> lists the classes the module names in its
  \<^verbatim>\<open>except\<close> clauses or raises itself, the two that \<^verbatim>\<open>.get\<close> and \<^verbatim>\<open>len\<close> raise on a value
  of the wrong type, and \<open>OtherException n\<close> for any other class \<open>n\<close> deriving from
  \<^verbatim>\<open>Exception\<close>. An instance of a subclass of a named class is represented by the named
  class. The model covers the classes deriving from \<^verbatim>\<open>Exception\<close>: the interpreter's
  exit signals (\<^verbatim>\<open>KeyboardInterrupt\<close>, \<^verbatim>\<open>SystemExit\<close>) and task cancellation are not
  failures of a call and are outside it.
\<close>

datatype exn_class =
    FileNotFoundError
  | JSONDecodeError
  | ImportError
  | CalledProcessError
  | ValueError
  | AttributeError
  | TypeError
  | OtherException string

text \<open>\<^verbatim>\<open>type(e).__name__\<close>\<close>

fun class_name :: "exn_class \<Rightarrow> string" where
  "class_name FileNotFoundError = ''FileNotFoundError''"
| "class_name JSONDecodeError = ''JSONDecodeError''"
| "class_name ImportError = ''ImportError''"
| "class_name CalledProcessError = ''CalledProcessError''"
| "class_name ValueError = ''ValueError''"
| "class_name AttributeError = ''AttributeError''"
| "class_name TypeError = ''TypeError''"
| "class_name (OtherException n) = n"

text \<open>An exception instance: its class and \<^verbatim>\<open>str(e)\<close>.\<close>

datatype pyexn = PyExn (exn_type: exn_class) (exn_str: string)

text \<open>
  Python values of the shapes that JSON has: what \<^verbatim>\<open>json.load\<close> returns for the
  configuration file, and what the search provider's client returns for a request.
  Nothing constrains such a value, so the functions below are defined on all of them.
  Python's \<^verbatim>\<open>float\<close> is passed through unchanged and never computed with; it is
  modelled by \<open>real\<close>. A dict is the list of its items.
\<close>

datatype json =
    JNull
  | JBool bool
  | JInt int
  | JFloat real
  | JStr string
  | JArr "json list"
  | JObj "(string \<times> json) list"

fun py_type_name :: "json \<Rightarrow> string" where
  "py_type_name JNull = ''NoneType''"
| "py_type_name (JBool b) = ''bool''"
| "py_type_name (JInt i) = ''int''"
| "py_type_name (JFloat x) = ''float''"
| "py_type_name (JStr s) = ''str''"
| "py_type_name (JArr xs) = ''list''"
| "py_type_name (JObj kvs) = ''dict''"

text \<open>
  \<^verbatim>\<open>v.get(key, default)\<close>: only a dict has the method; on any other value the attribute
  lookup raises \<^verbatim>\<open>AttributeError\<close>. A key that is present gives its value unchanged,
  whatever the value is.
\<close>

fun py_get :: "json \<Rightarrow> string \<Rightarrow> json \<Rightarrow> pyexn + json" where
  "py_get (JObj kvs) key dflt = Inr (case map_of kvs key of None \<Rightarrow> dflt | Some v \<Rightarrow> v)"
| "py_get v key dflt =
     Inl (PyExn AttributeError
       ([CHR 0x27] @ py_type_name v @ [CHR 0x27] @ '' object has no attribute '' @
        [CHR 0x27] @ ''get'' @ [CHR 0x27]))"

text \<open>
  \<^verbatim>\<open>len(v)\<close>: defined on strings, lists and dicts (the number of distinct keys), a
  \<^verbatim>\<open>TypeError\<close> otherwise.
\<close>

fun py_len :: "json \<Rightarrow> pyexn + nat" where
  "py_len (JStr s) = Inr (length s)"
| "py_len (JArr xs) = Inr (length xs)"
| "py_len (JObj kvs) = Inr (length (remdups (map fst kvs)))"
| "py_len v =
     Inl (PyExn TypeError
       (''object of type '' @ [CHR 0x27] @ py_type_name v @ [CHR 0x27] @ '' has no len()''))"

text \<open>
  The values a \<^verbatim>\<open>for\<close> loop over \<open>v\<close> visits: the elements of a list, the characters
  of a string, the keys of a dict; a \<^verbatim>\<open>TypeError\<close> on a value that is not iterable.
\<close>

fun py_iter :: "json \<Rightarrow> pyexn + json list" where
  "py_iter (JArr xs) = Inr xs"
| "py_iter (JStr s) = Inr (map (\<lambda>c. JStr [c]) s)"
| "py_iter (JObj kvs) = Inr (map JStr (remdups (map fst kvs)))"
| "py_iter v =
     Inl (PyExn TypeError
       ([CHR 0x27] @ py_type_name v @ [CHR 0x27] @ '' object is not iterable''))"

text \<open>The truth value of \<open>v\<close> in \<^verbatim>\<open>if v:\<close>.\<close>

fun py_truthy :: "json \<Rightarrow> bool" where
  "py_truthy JNull = False"
| "py_truthy (JBool b) = b"
| "py_truthy (JInt i) = (i \<noteq> 0)"
| "py_truthy (JFloat x) = (x \<noteq> 0)"
| "py_truthy (JStr s) = (s \<noteq> [])"
| "py_truthy (JArr xs) = (xs \<noteq> [])"
| "py_truthy (JObj kvs) = (kvs \<noteq> [])"

text \<open>
  \<^verbatim>\<open>v[:n]\<close>: the first \<open>n\<close> characters of a string or elements of a list. No other
  value can be sliced: a dict raises \<^verbatim>\<open>TypeError\<close> for the unhashable slice (a
  \<^verbatim>\<open>KeyError\<close> from Python 3.12 on), the others for not being subscriptable.
\<close>

fun py_slice :: "json \<Rightarrow> nat \<Rightarrow> pyexn + json" where
  "py_slice (JStr s) n = Inr (JStr (take n s))"
| "py_slice (JArr xs) n = Inr (JArr (take n xs))"
| "py_slice (JObj kvs) n =
     Inl (PyExn TypeError (''unhashable type: '' @ [CHR 0x27] @ ''slice'' @ [CHR 0x27]))"
| "py_slice v n =
     Inl (PyExn TypeError
       ([CHR 0x27] @ py_type_name v @ [CHR 0x27] @ '' object is not subscriptable''))"

text \<open>The keyword arguments of \<^verbatim>\<open>tavily_client.search\<close>.\<close>

record search_kwargs =
  kw_query :: string
  search_depth :: string
  include_answer :: bool
  max_results :: int
  include_raw_content :: bool

text \<open>
  What the functions do besides returning: the calls on \<^verbatim>\<open>logger\<close>, one constructor of
  \<open>log_msg\<close> for each call site with the values its f-string interpolates, the outbound
  request to the search provider, and the start of the HTTP server. Reads of the file
  system and of the process environment are modelled by what they return.
\<close>

datatype level = DEBUG | INFO | WARNING | ERROR

datatype log_msg =
    UsingLLMFarm
  | UsingOpenAI
  | MissingEnv string
  | EnvLoaded
  | TavilyInitialized
  | LoadingConfig string
  | FoundDefinitions nat
  | LoadedServers nat
  | ConfigNotFound string
  | TryingFallback
  | NoConfigFound
  | ErrFileNotFound string
  | ErrInvalidJSON string
  | ErrDependencies string
  | HintInstall
  | ErrSubprocess string
  | HintTools
  | ErrLoadFailed string string
  | ContinuingSearchOnly
  | ToolsetsHeader
  | ToolsetEntry nat string
  | NoServersLoaded
  | ConfiguringFarm
  | FarmConfigured string
  | UsingStandardModel
  | AgentInitialized
  | TotalToolsets nat nat
  | AppCreated
  | ToolCalled string
  | QueryLine string string
  | Executing string
  | SearchCompleted string
  | FoundResults string nat
  | ResultLine string nat json json
  | ToolSuccess string nat
  | AnswerAvailable string json
  | ToolError string string
  | ErrorDetails string string string
  | ReturningError string

datatype effect =
    Log level log_msg
  | TavilySearch search_kwargs
  | UvicornRun string nat

text \<open>
  A computation yields the effects it performed, in order, and either the exception it
  raised (\<open>Inl\<close>) or the value it returned (\<open>Inr\<close>).
\<close>

type_synonym 'a outcome = "effect list \<times> (pyexn + 'a)"

definition return_ok :: "'a \<Rightarrow> 'a outcome" where
  "return_ok a = ([], Inr a)"

definition raise :: "pyexn \<Rightarrow> 'a outcome" where
  "raise e = ([], Inl e)"

text \<open>An external call, by its result.\<close>

definition call :: "pyexn + 'a \<Rightarrow> 'a outcome" where
  "call r = ([], r)"

text \<open>A statement with an effect, followed by the rest of the block.\<close>

definition effect_then :: "effect \<Rightarrow> 'a outcome \<Rightarrow> 'a outcome" where
  "effect_then ev k = (ev # fst k, snd k)"

definition logged :: "level \<Rightarrow> log_msg \<Rightarrow> 'a outcome \<Rightarrow> 'a outcome" where
  "logged l m k = effect_then (Log l m) k"

text \<open>Sequencing: an exception in \<open>m\<close> skips the rest of the block.\<close>

definition seq :: "'a outcome \<Rightarrow> ('a \<Rightarrow> 'b outcome) \<Rightarrow> 'b outcome" where
  "seq m f =
     (case snd m of
        Inl e \<Rightarrow> (fst m, Inl e)
      | Inr a \<Rightarrow> (fst m @ fst (f a), snd (f a)))"

text \<open>
  \<^verbatim>\<open>try: body except ...\<close>: the handler chain \<open>h\<close> gives the block of the first
  \<^verbatim>\<open>except\<close> clause that matches, or \<open>None\<close> when no clause matches and the exception
  propagates.
\<close>

definition try_except :: "'a outcome \<Rightarrow> (pyexn \<Rightarrow> 'a outcome option) \<Rightarrow> 'a outcome" where
  "try_except body h =
     (case snd body of
        Inr a \<Rightarrow> body
      | Inl e \<Rightarrow>
          (case h e of
             None \<Rightarrow> body
           | Some k \<Rightarrow> (fst body @ fst k, snd k)))"

section \<open>The configuration loader\<close>

text \<open>
  The collaborators of \<^verbatim>\<open>load_mcp_config\<close>: \<^verbatim>\<open>os.path.exists\<close>, \<^verbatim>\<open>open(path, 'r')\<close> (the
  handle stands for the text it reads), \<^verbatim>\<open>json.load\<close> on that text, and
  \<^verbatim>\<open>pydantic_ai.mcp.load_mcp_servers\<close>, which builds the tool-server handles (of an
  abstract type \<open>'srv\<close>) from the file at a path. \<open>server_name\<close> is
  \<^verbatim>\<open>getattr(server, '_name', server.__class__.__name__)\<close>.
\<close>

record 'srv fs =
  path_exists :: "string \<Rightarrow> bool"
  open_file :: "string \<Rightarrow> pyexn + string"
  json_load :: "string \<Rightarrow> pyexn + json"
  load_mcp_servers :: "string \<Rightarrow> pyexn + 'srv list"
  server_name :: "'srv \<Rightarrow> string"

text \<open>The five \<^verbatim>\<open>except\<close> clauses of \<^verbatim>\<open>load_mcp_config\<close>, in the source's order.\<close>

definition load_handlers :: "pyexn \<Rightarrow> 'srv list outcome option" where
  "load_handlers e =
     (if exn_type e = FileNotFoundError then
        Some (logged ERROR (ErrFileNotFound (exn_str e)) (return_ok []))
      else if exn_type e = JSONDecodeError then
        Some (logged ERROR (ErrInvalidJSON (exn_str e)) (return_ok []))
      else if exn_type e = ImportError then
        Some (logged ERROR (ErrDependencies (exn_str e))
          (logged INFO HintInstall (return_ok [])))
      else if exn_type e = CalledProcessError then
        Some (logged ERROR (ErrSubprocess (exn_str e))
          (logged INFO HintTools (return_ok [])))
      else
        Some (logged ERROR (ErrLoadFailed (class_name (exn_type e)) (exn_str e))
          (logged INFO ContinuingSearchOnly (return_ok []))))"

text \<open>
  The block under \<^verbatim>\<open>if os.path.exists(config_path)\<close> (lines 70 to 80): read and
  parse the file, log the number of definitions, build the servers and return them. An
  exception of any call ends the block.
\<close>

definition load_existing :: "'srv fs \<Rightarrow> string \<Rightarrow> 'srv list outcome" where
  "load_existing w config_path =
     logged INFO (LoadingConfig config_path)
       (seq (call (open_file w config_path)) (\<lambda>f.
        seq (call (json_load w f)) (\<lambda>config_data.
        seq (call (py_get config_data ''mcpServers'' (JObj []))) (\<lambda>defs.
        seq (call (py_len defs)) (\<lambda>n.
        logged INFO (FoundDefinitions n)
          (seq (call (load_mcp_servers w config_path)) (\<lambda>mcp_servers.
           logged INFO (LoadedServers (length mcp_servers))
             (return_ok mcp_servers))))))))"

text \<open>
  \<^verbatim>\<open>load_mcp_config(config_path)\<close>. The call of the function on the fallback path stands
  inside the \<^verbatim>\<open>try\<close>, like the rest of the body. The recursion ends because the call is
  made only from a path that is not the fallback path.
\<close>

function load_mcp_config :: "'srv fs \<Rightarrow> string \<Rightarrow> 'srv list outcome" where
  "load_mcp_config w config_path =
     try_except
       (if path_exists w config_path then
          load_existing w config_path
        else
          logged WARNING (ConfigNotFound config_path)
            (if config_path \<noteq> ''mcp_config_minimal.json''
                \<and> path_exists w ''mcp_config_minimal.json''
             then
               logged INFO TryingFallback
                 (load_mcp_config w ''mcp_config_minimal.json'')
             else
               logged WARNING NoConfigFound (return_ok [])))
       load_handlers"
  by pat_completeness auto
termination
  by (relation "measure (\<lambda>(w, p). if p = ''mcp_config_minimal.json'' then 0 else 1)") auto

section \<open>The search tool\<close>

text \<open>The pydantic classes \<^verbatim>\<open>SearchResult\<close> and \<^verbatim>\<open>SearchResponse\<close>.\<close>

record SearchResult =
  title :: string
  url :: string
  content :: string
  score :: real

record SearchResponse =
  query :: string
  results :: "SearchResult list"
  answer :: "string option"

text \<open>
  Constructing an instance of either class validates every argument against the type
  declared for its field, and raises \<^verbatim>\<open>ValidationError\<close> when one is rejected (the
  library is pydantic 2, which \<^verbatim>\<open>pydantic_ai\<close> is built on). A field
  declared \<^verbatim>\<open>str\<close> accepts a string and nothing else among the values above; one declared
  \<^verbatim>\<open>Optional[str]\<close> accepts \<^verbatim>\<open>None\<close> as well. A field declared \<^verbatim>\<open>float\<close> accepts a
  float unchanged and rejects \<^verbatim>\<open>None\<close>, lists and dicts. What the library makes of an
  integer, a boolean or a string given for a \<^verbatim>\<open>float\<close> field (the number it converts the
  value to, or a rejection), and the text of the exception, are the library's and are
  taken as parameters.
\<close>

record pydantic =
  float_lax :: "json \<Rightarrow> real option"
  error_text :: "string \<Rightarrow> (string \<times> json) list \<Rightarrow> string"

definition validate_str :: "json \<Rightarrow> string option" where
  "validate_str v = (case v of JStr s \<Rightarrow> Some s | _ \<Rightarrow> None)"

definition validate_optional_str :: "json \<Rightarrow> string option option" where
  "validate_optional_str v =
     (case v of JNull \<Rightarrow> Some None | JStr s \<Rightarrow> Some (Some s) | _ \<Rightarrow> None)"

definition validate_float :: "pydantic \<Rightarrow> json \<Rightarrow> real option" where
  "validate_float pyd v =
     (case v of
        JFloat x \<Rightarrow> Some x
      | JInt i \<Rightarrow> float_lax pyd v
      | JBool b \<Rightarrow> float_lax pyd v
      | JStr s \<Rightarrow> float_lax pyd v
      | _ \<Rightarrow> None)"

text \<open>The entry of a validation error for a field whose value was rejected.\<close>

definition rejected :: "string \<Rightarrow> json \<Rightarrow> 'a option \<Rightarrow> (string \<times> json) list" where
  "rejected field v r = (case r of None \<Rightarrow> [(field, v)] | Some x \<Rightarrow> [])"

text \<open>\<^verbatim>\<open>SearchResult(title=..., url=..., content=..., score=...)\<close>\<close>

definition new_SearchResult ::
  "pydantic \<Rightarrow> json \<Rightarrow> json \<Rightarrow> json \<Rightarrow> json \<Rightarrow> pyexn + SearchResult"
where
  "new_SearchResult pyd title' url' content' score' =
     (case (validate_str title', validate_str url', validate_str content',
            validate_float pyd score') of
        (Some t, Some u, Some c, Some s) \<Rightarrow>
          Inr \<lparr>title = t, url = u, content = c, score = s\<rparr>
      | _ \<Rightarrow>
          Inl (PyExn (OtherException ''ValidationError'')
            (error_text pyd ''SearchResult''
               (rejected ''title'' title' (validate_str title')
                @ rejected ''url'' url' (validate_str url')
                @ rejected ''content'' content' (validate_str content')
                @ rejected ''score'' score' (validate_float pyd score')))))"

text \<open>
  \<^verbatim>\<open>SearchResponse(query=query, results=results, answer=...)\<close>: the query is a string
  and the results are instances of \<^verbatim>\<open>SearchResult\<close>, so only the answer can be rejected.
\<close>

definition new_SearchResponse ::
  "pydantic \<Rightarrow> string \<Rightarrow> SearchResult list \<Rightarrow> json \<Rightarrow> pyexn + SearchResponse"
where
  "new_SearchResponse pyd q results' answer' =
     (case validate_optional_str answer' of
        Some a \<Rightarrow> Inr \<lparr>query = q, results = results', answer = a\<rparr>
      | None \<Rightarrow>
          Inl (PyExn (OtherException ''ValidationError'')
            (error_text pyd ''SearchResponse'' [(''answer'', answer')])))"

text \<open>
  The loop \<^verbatim>\<open>for i, result in enumerate(...)\<close> over the values \<open>result # rest\<close> still to
  visit: \<open>i\<close> is the index of the next one, \<open>results'\<close> the list \<^verbatim>\<open>results\<close> built so
  far. Each \<^verbatim>\<open>result.get\<close> raises when \<open>result\<close> is not a dict, and the constructor
  raises when it rejects a value; either ends the loop.
\<close>

fun process_results ::
  "pydantic \<Rightarrow> string \<Rightarrow> nat \<Rightarrow> json list \<Rightarrow> SearchResult list \<Rightarrow> SearchResult list outcome"
where
  "process_results pyd request_id i [] results' = return_ok results'"
| "process_results pyd request_id i (result # rest) results' =
     seq (call (py_get result ''title'' (JStr ''''))) (\<lambda>title'.
     seq (call (py_get result ''url'' (JStr ''''))) (\<lambda>url'.
     seq (call (py_get result ''content'' (JStr ''''))) (\<lambda>content'.
     seq (call (py_get result ''score'' (JFloat 0))) (\<lambda>score'.
     seq (call (new_SearchResult pyd title' url' content' score')) (\<lambda>search_res.
     seq (call (py_get result ''title'' (JStr ''No title''))) (\<lambda>shown_title.
     seq (call (py_get result ''url'' (JStr ''No URL''))) (\<lambda>shown_url.
     logged DEBUG (ResultLine request_id (i + 1) shown_title shown_url)
       (process_results pyd request_id (i + 1) rest (results' @ [search_res])))))))))"

text \<open>The single clause \<^verbatim>\<open>except Exception as e\<close> of \<^verbatim>\<open>tavily_search\<close>.\<close>

definition search_handlers :: "string \<Rightarrow> string \<Rightarrow> pyexn \<Rightarrow> SearchResponse outcome option" where
  "search_handlers request_id q e =
     Some
       (logged ERROR (ToolError request_id (exn_str e))
       (logged ERROR (ErrorDetails request_id (class_name (exn_type e)) (exn_str e))
       (let error_response =
          \<lparr>query = q, results = [], answer = Some (''Search failed: '' @ exn_str e)\<rparr>
        in
          logged INFO (ReturningError request_id) (return_ok error_response))))"

text \<open>
  The \<^verbatim>\<open>try\<close> block of \<^verbatim>\<open>tavily_search\<close> (lines 248 to 287). \<open>client_search\<close> is
  \<^verbatim>\<open>tavily_client.search\<close>, by the result of the call for each set of keyword
  arguments: the exception it raises or the value it returns, which may be any value.
  The worker thread that runs the call and the suspension of the caller are not
  modelled.
\<close>

definition tavily_search_try ::
  "pydantic \<Rightarrow> (search_kwargs \<Rightarrow> pyexn + json) \<Rightarrow> string \<Rightarrow> string \<Rightarrow> SearchResponse outcome"
where
  "tavily_search_try pyd client_search request_id q =
     logged INFO (Executing request_id)
     (let kwargs =
        \<lparr>kw_query = q,
         search_depth = ''advanced'',
         include_answer = True,
         max_results = 5,
         include_raw_content = True\<rparr>
      in
      seq (effect_then (TavilySearch kwargs) (call (client_search kwargs))) (\<lambda>search_result.
      logged INFO (SearchCompleted request_id)
      (seq (call (py_get search_result ''results'' (JArr []))) (\<lambda>found.
      seq (call (py_len found)) (\<lambda>n.
      logged INFO (FoundResults request_id n)
      (seq (call (py_get search_result ''results'' (JArr []))) (\<lambda>listed.
      seq (call (py_iter listed)) (\<lambda>items.
      seq (process_results pyd request_id 0 items []) (\<lambda>results'.
      seq (call (py_get search_result ''answer'' (JStr ''''))) (\<lambda>answer'.
      seq (call (new_SearchResponse pyd q results' answer')) (\<lambda>response.
      logged INFO (ToolSuccess request_id (length results'))
      (seq (call (py_get search_result ''answer'' JNull)) (\<lambda>given.
      if py_truthy given then
        seq (call (py_get search_result ''answer'' JNull)) (\<lambda>given'.
        seq (call (py_slice given' 100)) (\<lambda>shown.
        logged INFO (AnswerAvailable request_id shown) (return_ok response)))
      else
        return_ok response)))))))))))))"

text \<open>
  \<^verbatim>\<open>tavily_search(query)\<close>; the parameter \<^verbatim>\<open>query\<close> is \<open>q\<close> here, \<open>query\<close> being the
  field of the response. \<open>request_id\<close> is the string that \<^verbatim>\<open>datetime.now().strftime\<close>
  gives when the call starts.
\<close>

definition tavily_search ::
  "pydantic \<Rightarrow> (search_kwargs \<Rightarrow> pyexn + json) \<Rightarrow> string \<Rightarrow> string \<Rightarrow> SearchResponse outcome"
where
  "tavily_search pyd client_search request_id q =
     logged INFO (ToolCalled request_id)
     (logged INFO (QueryLine request_id q)
     (try_except
        (tavily_search_try pyd client_search request_id q)
        (search_handlers request_id q)))"

section \<open>Startup: the environment check and the model\<close>

text \<open>
  \<open>environ\<close> is the process environment as \<^verbatim>\<open>os.getenv\<close> reads it, after
  \<^verbatim>\<open>load_dotenv()\<close> has run. \<^verbatim>\<open>str.lower\<close> is modelled on the ASCII letters; no character
  outside ASCII is lower-cased to one of the letters of \<^verbatim>\<open>true\<close>.
\<close>

type_synonym environ = "string \<rightharpoonup> string"

definition os_getenv :: "environ \<Rightarrow> string \<Rightarrow> string option" where
  "os_getenv env key = env key"

definition os_getenv_default :: "environ \<Rightarrow> string \<Rightarrow> string \<Rightarrow> string" where
  "os_getenv_default env key dflt = (case env key of None \<Rightarrow> dflt | Some v \<Rightarrow> v)"

definition lower_char :: "char \<Rightarrow> char" where
  "lower_char c =
     (if 65 \<le> (of_char c :: nat) \<and> (of_char c :: nat) \<le> 90
      then char_of ((of_char c :: nat) + 32) else c)"

definition lower :: "string \<Rightarrow> string" where
  "lower s = map lower_char s"

text \<open>\<^verbatim>\<open>sep.join(xs)\<close>\<close>

fun join :: "string \<Rightarrow> string list \<Rightarrow> string" where
  "join sep [] = []"
| "join sep [x] = x"
| "join sep (x # y # ys) = x @ sep @ join sep (y # ys)"

text \<open>
  The module's globals \<^verbatim>\<open>use_llm_farm\<close>, \<^verbatim>\<open>required_keys\<close>, \<^verbatim>\<open>llm_farm_url\<close> and
  \<^verbatim>\<open>missing_keys\<close>, as functions of the environment they are computed from.
  \<^verbatim>\<open>llm_farm_url\<close> is assigned only in the branch where \<^verbatim>\<open>use_llm_farm\<close> holds, and
  read only there.
\<close>

definition use_llm_farm :: "environ \<Rightarrow> bool" where
  "use_llm_farm env = (lower (os_getenv_default env ''USE_LLM_FARM'' ''false'') = ''true'')"

definition required_keys :: "environ \<Rightarrow> string list" where
  "required_keys env =
     (if use_llm_farm env then [''LLM_FARM_API_KEY'', ''TAVILY_API_KEY'']
      else [''OPENAI_API_KEY'', ''TAVILY_API_KEY''])"

definition llm_farm_url :: "environ \<Rightarrow> string" where
  "llm_farm_url env =
     os_getenv_default env ''LLM_FARM_URL''
       ''https://aoai-farm.bosch-temp.com/api/openai/deployments/askbosch-prod-farm-openai-gpt-4o-mini-2024-07-18/''"

text \<open>\<^verbatim>\<open>not os.getenv(key)\<close>: the variable is unset or set to the empty string.\<close>

definition not_set :: "environ \<Rightarrow> string \<Rightarrow> bool" where
  "not_set env key = (case os_getenv env key of None \<Rightarrow> True | Some v \<Rightarrow> v = [])"

definition missing_keys :: "environ \<Rightarrow> string list" where
  "missing_keys env = filter (\<lambda>key. not_set env key) (required_keys env)"

text \<open>Lines 43 to 59 of the module: select the backend, then check the keys.\<close>

definition check_environment :: "environ \<Rightarrow> unit outcome" where
  "check_environment env =
     logged INFO (if use_llm_farm env then UsingLLMFarm else UsingOpenAI)
       (if missing_keys env \<noteq> [] then
          logged ERROR (MissingEnv (join '', '' (missing_keys env)))
            (raise (PyExn ValueError
               (''Missing required environment variables: '' @ join '', '' (missing_keys env))))
        else
          logged INFO EnvLoaded (return_ok ()))"

text \<open>
  The model handle: the provider string, or an \<^verbatim>\<open>OpenAIChatModel\<close> over an
  \<^verbatim>\<open>AsyncOpenAI\<close> client. The constructors of the libraries are taken as constructors of
  data.
\<close>

record AsyncOpenAI =
  base_url :: string
  api_key :: string
  default_headers :: "(string \<times> string option) list"
  default_query :: "(string \<times> string) list"

datatype model =
    ModelName string
  | OpenAIChatModel (model_name: string) (openai_client: AsyncOpenAI)

definition initialize_model :: "environ \<Rightarrow> model outcome" where
  "initialize_model env =
     (if use_llm_farm env then
        logged INFO ConfiguringFarm
          (let llm_client =
             \<lparr>base_url = llm_farm_url env,
              api_key = ''dummy'',
              default_headers =
                [(''genaiplatform-farm-subscription-key'', os_getenv env ''LLM_FARM_API_KEY'')],
              default_query = [(''api-version'', ''2024-08-01-preview'')]\<rparr>;
               model = OpenAIChatModel ''gpt-4o-mini'' llm_client
           in
             logged INFO (FarmConfigured (llm_farm_url env)) (return_ok model))
      else
        logged INFO UsingStandardModel (return_ok (ModelName ''openai:gpt-4o-mini'')))"

section \<open>The module body\<close>

text \<open>
  The statements of the module in order: the environment check, the search client, the
  tool servers, the model, the agent and the ASGI application. The globals the module
  ends with are collected in a record; a primed name is the global of that name.
\<close>

record 'srv Agent =
  agent_model :: model
  toolsets :: "'srv list"

record 'srv globals =
  tavily_client :: "string option"
  mcp_servers :: "'srv list"
  model :: model
  agent :: "'srv Agent"

text \<open>\<^verbatim>\<open>for i, server in enumerate(mcp_servers, 1)\<close>, one log line for each server.\<close>

fun log_toolsets :: "'srv fs \<Rightarrow> nat \<Rightarrow> 'srv list \<Rightarrow> 'a outcome \<Rightarrow> 'a outcome" where
  "log_toolsets w i [] k = k"
| "log_toolsets w i (server # rest) k =
     logged INFO (ToolsetEntry i (server_name w server)) (log_toolsets w (i + 1) rest k)"

definition agent_module :: "'srv fs \<Rightarrow> environ \<Rightarrow> 'srv globals outcome" where
  "agent_module w env =
     seq (check_environment env) (\<lambda>_.
     let tavily_client' = os_getenv env ''TAVILY_API_KEY'' in
     logged INFO TavilyInitialized
     (seq (load_mcp_config w ''mcp_config.json'') (\<lambda>mcp_servers'.
     (if mcp_servers' \<noteq> [] then
        (\<lambda>k. logged INFO ToolsetsHeader (log_toolsets w 1 mcp_servers' k))
      else
        logged INFO NoServersLoaded)
     (seq (initialize_model env) (\<lambda>model'.
     let agent' = \<lparr>agent_model = model', toolsets = mcp_servers'\<rparr> in
     logged INFO AgentInitialized
     (logged INFO (TotalToolsets (length mcp_servers' + 1) (length mcp_servers'))
     (logged INFO AppCreated
     (return_ok
        \<lparr>tavily_client = tavily_client',
         mcp_servers = mcp_servers',
         model = model',
         agent = agent'\<rparr>))))))))"

text \<open>
  Running the program (\<^verbatim>\<open>main.py\<close>, or \<^verbatim>\<open>agent.py\<close> as a script): the module body, then
  \<^verbatim>\<open>uvicorn.run(app, host="0.0.0.0", port=8000)\<close>, which binds the server. The banner the
  script logs in between is left out.
\<close>

definition run_main :: "'srv fs \<Rightarrow> environ \<Rightarrow> unit outcome" where
  "run_main w env =
     seq (agent_module w env) (\<lambda>g.
     effect_then (UvicornRun ''0.0.0.0'' 8000) (return_ok ()))"

section \<open>Observations and concrete inputs\<close>

text \<open>The requests sent to the search provider, in order, among the effects of a run.\<close>

fun provider_calls :: "effect list \<Rightarrow> search_kwargs list" where
  "provider_calls [] = []"
| "provider_calls (TavilySearch kwargs # evs) = kwargs # provider_calls evs"
| "provider_calls (ev # evs) = provider_calls evs"

text \<open>
  File systems: one with no configuration file at all, one whose
  \<^verbatim>\<open>mcp_config.json\<close> is not valid JSON, and one that has only
  \<^verbatim>\<open>mcp_config_minimal.json\<close>, with one server definition. A server handle is
  represented by its name.
\<close>

definition fs_empty :: "string fs" where
  "fs_empty =
     \<lparr>path_exists = (\<lambda>p. False),
      open_file = (\<lambda>p. Inl (PyExn FileNotFoundError p)),
      json_load = (\<lambda>t. Inl (PyExn JSONDecodeError ''Expecting value'')),
      load_mcp_servers = (\<lambda>p. Inl (PyExn FileNotFoundError p)),
      server_name = (\<lambda>s. s)\<rparr>"

definition fs_malformed :: "string fs" where
  "fs_malformed =
     \<lparr>path_exists = (\<lambda>p. p = ''mcp_config.json''),
      open_file = (\<lambda>p. Inr ''{''),
      json_load = (\<lambda>t. Inl (PyExn JSONDecodeError ''Expecting property name'')),
      load_mcp_servers = (\<lambda>p. Inr [''fetch'']),
      server_name = (\<lambda>s. s)\<rparr>"

definition fs_fallback :: "string fs" where
  "fs_fallback =
     \<lparr>path_exists = (\<lambda>p. p = ''mcp_config_minimal.json''),
      open_file = (\<lambda>p. Inr p),
      json_load = (\<lambda>t.
        Inr (JObj [(''mcpServers'',
          JObj [(''fetch'',
            JObj [(''command'', JStr ''uvx''), (''args'', JArr [JStr ''mcp-server-fetch''])])])])),
      load_mcp_servers = (\<lambda>p. Inr [''fetch'']),
      server_name = (\<lambda>s. s)\<rparr>"

text \<open>
  Providers: one whose call raises a connection error; one that returns three items,
  the second with only a URL, and an answer; and one that returns a single item whose
  title is present and null.
\<close>

definition provider_down :: "search_kwargs \<Rightarrow> pyexn + json" where
  "provider_down kwargs = Inl (PyExn (OtherException ''ConnectionError'') ''connection refused'')"

definition provider_three :: "search_kwargs \<Rightarrow> pyexn + json" where
  "provider_three kwargs =
     Inr (JObj
       [(''query'', JStr (kw_query kwargs)),
        (''answer'', JStr ''Quantum computers compute with qubits.''),
        (''results'', JArr
           [JObj [(''title'', JStr ''Qubits''),
                  (''url'', JStr ''https://example.org/qubits''),
                  (''content'', JStr ''A qubit is a two-level system.''),
                  (''score'', JFloat 0.9),
                  (''raw_content'', JNull)],
            JObj [(''url'', JStr ''https://example.org/untitled'')],
            JObj [(''title'', JStr ''Shor''),
                  (''url'', JStr ''https://example.org/shor''),
                  (''content'', JStr ''Factoring in polynomial time.''),
                  (''score'', JFloat 0.5)]]),
        (''response_time'', JFloat 1.5)])"

definition provider_null_title :: "search_kwargs \<Rightarrow> pyexn + json" where
  "provider_null_title kwargs =
     Inr (JObj
       [(''answer'', JStr ''An answer.''),
        (''results'', JArr
           [JObj [(''title'', JNull),
                  (''url'', JStr ''https://example.org/page''),
                  (''content'', JStr ''Some text.''),
                  (''score'', JFloat 0.9)]])])"

text \<open>
  A provider that answers like \<open>provider_three\<close> when the request has the fixed
  parameters and refuses any other request.
\<close>

definition provider_picky :: "search_kwargs \<Rightarrow> pyexn + json" where
  "provider_picky kwargs =
     (if search_depth kwargs = ''advanced'' \<and> include_answer kwargs
         \<and> max_results kwargs = 5 \<and> include_raw_content kwargs
      then provider_three kwargs
      else Inl (PyExn ValueError ''unexpected request''))"

text \<open>
  An instance of the library's part for concrete runs: it converts an integer given for
  a \<^verbatim>\<open>float\<close> field and rejects a boolean or a string there, and its error text names
  the class only.
\<close>

definition pydantic_plain :: pydantic where
  "pydantic_plain =
     \<lparr>float_lax = (\<lambda>v. case v of JInt i \<Rightarrow> Some (of_int i) | _ \<Rightarrow> None),
      error_text = (\<lambda>cls errs. ''validation error for '' @ cls)\<rparr>"






text \<open>
  Environments: the alternate backend with both keys and no \<^verbatim>\<open>LLM_FARM_URL\<close>, the
  alternate backend without its API key, the standard backend without the search key
  and with both of its keys, and the alternate backend without the search key.
\<close>

definition env_farm_no_url :: environ where
  "env_farm_no_url =
     [''USE_LLM_FARM'' \<mapsto> ''true'',
      ''LLM_FARM_API_KEY'' \<mapsto> ''farm-key'',
      ''TAVILY_API_KEY'' \<mapsto> ''tvly-key'']"

definition env_farm_no_key :: environ where
  "env_farm_no_key =
     [''USE_LLM_FARM'' \<mapsto> ''true'',
      ''TAVILY_API_KEY'' \<mapsto> ''tvly-key'']"

definition env_openai_no_tavily :: environ where
  "env_openai_no_tavily = [''OPENAI_API_KEY'' \<mapsto> ''sk-key'']"

definition env_openai :: environ where
  "env_openai = [''OPENAI_API_KEY'' \<mapsto> ''sk-key'', ''TAVILY_API_KEY'' \<mapsto> ''tvly-key'']"

definition env_farm_no_tavily :: environ where
  "env_farm_no_tavily =
     [''USE_LLM_FARM'' \<mapsto> ''True'',
      ''LLM_FARM_API_KEY'' \<mapsto> ''farm-key'']"

section \<open>Outcomes: what a computation returns and what it emits\<close>

declare load_mcp_config.simps [simp del]

lemma snd_return_ok: "snd (return_ok a) = Inr a"
  by (simp add: return_ok_def)

lemma fst_return_ok: "fst (return_ok a) = []"
  by (simp add: return_ok_def)

lemma snd_raise: "snd (raise e) = Inl e"
  by (simp add: raise_def)

lemma fst_raise: "fst (raise e) = []"
  by (simp add: raise_def)

lemma snd_call: "snd (call r) = r"
  by (simp add: call_def)

lemma fst_call: "fst (call r) = []"
  by (simp add: call_def)

lemma snd_effect_then: "snd (effect_then ev k) = snd k"
  by (simp add: effect_then_def)

lemma fst_effect_then: "fst (effect_then ev k) = ev # fst k"
  by (simp add: effect_then_def)

lemma snd_logged: "snd (logged l m k) = snd k"
  by (simp add: logged_def effect_then_def)

lemma fst_logged: "fst (logged l m k) = Log l m # fst k"
  by (simp add: logged_def effect_then_def)

lemma snd_seq: "snd (seq m f) = (case snd m of Inl e \<Rightarrow> Inl e | Inr a \<Rightarrow> snd (f a))"
  by (simp add: seq_def split: sum.splits)

lemma fst_seq: "fst (seq m f) = (case snd m of Inl e \<Rightarrow> fst m | Inr a \<Rightarrow> fst m @ fst (f a))"
  by (simp add: seq_def split: sum.splits)

lemmas outcome_simps =
  snd_return_ok fst_return_ok snd_raise fst_raise snd_call fst_call
  snd_effect_then fst_effect_then snd_logged fst_logged snd_seq fst_seq

lemma try_except_returned: "snd body = Inr r \<Longrightarrow> try_except body h = body"
  by (simp add: try_except_def)

section \<open>The configuration loader: results\<close>

text \<open>Every exception finds a clause, and every clause returns the empty list.\<close>

lemma load_handlers_result:
  "\<exists>k. load_handlers e = Some k \<and> snd k = Inr [] \<and> Log INFO TryingFallback \<notin> set (fst k)"
  by (auto simp: load_handlers_def logged_def effect_then_def return_ok_def)

lemma snd_try_load:
  "snd (try_except body load_handlers) = (case snd body of Inl e \<Rightarrow> Inr [] | Inr r \<Rightarrow> Inr r)"
proof (cases "snd body")
  case (Inl e)
  obtain k :: "'a list outcome" where "load_handlers e = Some k" "snd k = Inr []"
    using load_handlers_result by blast
  with Inl show ?thesis by (simp add: try_except_def)
next
  case (Inr r)
  then show ?thesis by (simp add: try_except_def)
qed

lemma fst_try_load_no_fallback:
  assumes "Log INFO TryingFallback \<notin> set (fst body)"
  shows "Log INFO TryingFallback \<notin>
           set (fst (try_except body (load_handlers :: pyexn \<Rightarrow> 'a list outcome option)))"
proof (cases "snd body")
  case (Inl e)
  obtain k :: "'a list outcome"
    where "load_handlers e = Some k" "Log INFO TryingFallback \<notin> set (fst k)"
    using load_handlers_result by blast
  with Inl assms show ?thesis by (simp add: try_except_def)
next
  case (Inr r)
  with assms show ?thesis by (simp add: try_except_def)
qed

text \<open>The block that reads an existing file.\<close>

lemma load_existing_events:
  "set (fst (load_existing w q)) \<subseteq>
     {Log INFO (LoadingConfig q)} \<union> range (\<lambda>n. Log INFO (FoundDefinitions n))
       \<union> range (\<lambda>n. Log INFO (LoadedServers n))"
  by (auto simp: load_existing_def outcome_simps split: sum.splits)

lemma load_existing_no_fallback: "Log INFO TryingFallback \<notin> set (fst (load_existing w q))"
  using load_existing_events [of w q] by auto

lemma load_existing_raises:
  "snd (load_existing w q) = Inl e \<longleftrightarrow>
     open_file w q = Inl e \<or>
     (\<exists>f. open_file w q = Inr f \<and>
        (json_load w f = Inl e \<or>
         (\<exists>c. json_load w f = Inr c \<and>
            (py_get c ''mcpServers'' (JObj []) = Inl e \<or>
             (\<exists>d. py_get c ''mcpServers'' (JObj []) = Inr d \<and>
                (py_len d = Inl e \<or>
                 (\<exists>n. py_len d = Inr n \<and> load_mcp_servers w q = Inl e)))))))"
  by (auto simp: load_existing_def outcome_simps split: sum.splits)

lemma load_existing_servers_fail:
  "load_mcp_servers w q = Inl e \<Longrightarrow> \<exists>e'. snd (load_existing w q) = Inl e'"
  by (auto simp: load_existing_def outcome_simps split: sum.splits)

lemma load_existing_open_fail:
  "open_file w q = Inl e \<Longrightarrow> snd (load_existing w q) = Inl e"
  by (auto simp: load_existing_def outcome_simps split: sum.splits)

lemma load_existing_returns:
  "snd (load_existing w q) = Inr r \<Longrightarrow> load_mcp_servers w q = Inr r"
  by (auto simp: load_existing_def outcome_simps split: sum.splits)

text \<open>The three ways through \<^verbatim>\<open>load_mcp_config\<close>.\<close>

lemma load_mcp_config_exists:
  "path_exists w p \<Longrightarrow> load_mcp_config w p = try_except (load_existing w p) load_handlers"
  by (subst load_mcp_config.simps) simp

lemma load_mcp_config_absent:
  "\<not> path_exists w p \<Longrightarrow>
   p = ''mcp_config_minimal.json'' \<or> \<not> path_exists w ''mcp_config_minimal.json'' \<Longrightarrow>
   load_mcp_config w p =
     logged WARNING (ConfigNotFound p) (logged WARNING NoConfigFound (return_ok []))"
  by (subst load_mcp_config.simps) (auto simp: try_except_def outcome_simps)

lemma load_mcp_config_returns: "\<exists>r. snd (load_mcp_config w p) = Inr r"
proof (cases "path_exists w p")
  case True
  then show ?thesis by (simp add: load_mcp_config_exists snd_try_load split: sum.splits)
next
  case False
  show ?thesis
    by (subst load_mcp_config.simps) (simp add: snd_try_load split: sum.splits)
qed

lemma load_mcp_config_substitute:
  assumes "\<not> path_exists w p"
    and "p \<noteq> ''mcp_config_minimal.json''"
    and "path_exists w ''mcp_config_minimal.json''"
  shows "load_mcp_config w p =
    logged WARNING (ConfigNotFound p)
      (logged INFO TryingFallback (load_mcp_config w ''mcp_config_minimal.json''))"
proof -
  obtain r where "snd (load_mcp_config w ''mcp_config_minimal.json'') = Inr r"
    using load_mcp_config_returns by blast
  then have "snd (logged WARNING (ConfigNotFound p)
      (logged INFO TryingFallback (load_mcp_config w ''mcp_config_minimal.json''))) = Inr r"
    by (simp add: outcome_simps)
  from try_except_returned [OF this] assms show ?thesis
    by (subst load_mcp_config.simps) simp
qed

lemma load_mcp_config_result:
  "snd (load_mcp_config w p) =
     (if path_exists w p then
        (case snd (load_existing w p) of Inl e \<Rightarrow> Inr [] | Inr r \<Rightarrow> Inr r)
      else if p \<noteq> ''mcp_config_minimal.json'' \<and> path_exists w ''mcp_config_minimal.json''
      then
        (case snd (load_existing w ''mcp_config_minimal.json'') of
           Inl e \<Rightarrow> Inr [] | Inr r \<Rightarrow> Inr r)
      else Inr [])"
proof (cases "path_exists w p")
  case True
  then show ?thesis by (simp add: load_mcp_config_exists snd_try_load)
next
  case absent: False
  show ?thesis
  proof (cases "p \<noteq> ''mcp_config_minimal.json'' \<and> path_exists w ''mcp_config_minimal.json''")
    case True
    with absent show ?thesis
      by (simp add: load_mcp_config_substitute load_mcp_config_exists snd_try_load outcome_simps)
  next
    case False
    with absent show ?thesis
      by (auto simp: load_mcp_config_absent outcome_simps)
  qed
qed

lemma count_fallback_existing:
  "count_list (fst (load_mcp_config w ''mcp_config_minimal.json'')) (Log INFO TryingFallback) = 0"
proof (cases "path_exists w ''mcp_config_minimal.json''")
  case True
  have "Log INFO TryingFallback \<notin> set (fst (load_mcp_config w ''mcp_config_minimal.json''))"
    unfolding load_mcp_config_exists [OF True]
    by (rule fst_try_load_no_fallback) (rule load_existing_no_fallback)
  then show ?thesis by (simp add: count_list_0_iff)
next
  case False
  then show ?thesis by (simp add: load_mcp_config_absent outcome_simps)
qed

text \<open>
  Claim C1. For every path, \<^verbatim>\<open>load_mcp_config\<close> returns and never raises. Whenever the
  block that reads the file raises an exception, of any class, the function returns the
  empty list: in particular when the file cannot be opened, when it does not parse as
  JSON, and when \<^verbatim>\<open>load_mcp_servers\<close> fails (missing dependencies, a subprocess that does
  not start). The same holds when the file read is the fallback file, and when no file
  exists.
\<close>

theorem load_mcp_config_never_raises:
  "(\<exists>r. snd (load_mcp_config w p) = Inr r) \<and>
   (path_exists w p \<and> snd (load_existing w p) = Inl e \<longrightarrow>
      snd (load_mcp_config w p) = Inr []) \<and>
   (path_exists w p \<and> open_file w p = Inl e \<longrightarrow> snd (load_mcp_config w p) = Inr []) \<and>
   (path_exists w p \<and> open_file w p = Inr f \<and> json_load w f = Inl e \<longrightarrow>
      snd (load_mcp_config w p) = Inr []) \<and>
   (path_exists w p \<and> load_mcp_servers w p = Inl e \<longrightarrow> snd (load_mcp_config w p) = Inr []) \<and>
   (\<not> path_exists w p \<and> path_exists w ''mcp_config_minimal.json''
      \<and> snd (load_existing w ''mcp_config_minimal.json'') = Inl e \<longrightarrow>
      snd (load_mcp_config w p) = Inr []) \<and>
   (\<not> path_exists w p \<and> \<not> path_exists w ''mcp_config_minimal.json'' \<longrightarrow>
      snd (load_mcp_config w p) = Inr [])"
proof (intro conjI impI)
  show "\<exists>r. snd (load_mcp_config w p) = Inr r" by (rule load_mcp_config_returns)
next
  assume "path_exists w p \<and> snd (load_existing w p) = Inl e"
  then show "snd (load_mcp_config w p) = Inr []" by (simp add: load_mcp_config_result)
next
  assume "path_exists w p \<and> open_file w p = Inl e"
  then show "snd (load_mcp_config w p) = Inr []"
    by (simp add: load_mcp_config_result load_existing_open_fail)
next
  assume "path_exists w p \<and> open_file w p = Inr f \<and> json_load w f = Inl e"
  then have "path_exists w p" "snd (load_existing w p) = Inl e"
    by (auto simp: load_existing_raises)
  then show "snd (load_mcp_config w p) = Inr []" by (simp add: load_mcp_config_result)
next
  assume a: "path_exists w p \<and> load_mcp_servers w p = Inl e"
  then obtain e' where "snd (load_existing w p) = Inl e'"
    using load_existing_servers_fail by blast
  with a show "snd (load_mcp_config w p) = Inr []" by (simp add: load_mcp_config_result)
next
  assume "\<not> path_exists w p \<and> path_exists w ''mcp_config_minimal.json''
      \<and> snd (load_existing w ''mcp_config_minimal.json'') = Inl e"
  then show "snd (load_mcp_config w p) = Inr []" by (auto simp: load_mcp_config_result)
next
  assume "\<not> path_exists w p \<and> \<not> path_exists w ''mcp_config_minimal.json''"
  then show "snd (load_mcp_config w p) = Inr []" by (simp add: load_mcp_config_result)
qed

text \<open>A configuration file that exists, opens, and is not valid JSON.\<close>

theorem load_mcp_config_never_raises_witness:
  "path_exists fs_malformed ''mcp_config.json''
   \<and> open_file fs_malformed ''mcp_config.json'' = Inr ''{''
   \<and> json_load fs_malformed ''{'' = Inl (PyExn JSONDecodeError ''Expecting property name'')
   \<and> snd (load_mcp_config fs_malformed ''mcp_config.json'') = Inr []"
proof -
  have h: "path_exists fs_malformed ''mcp_config.json''
     \<and> open_file fs_malformed ''mcp_config.json'' = Inr ''{''
     \<and> json_load fs_malformed ''{'' = Inl (PyExn JSONDecodeError ''Expecting property name'')"
    by (simp add: fs_malformed_def)
  with load_mcp_config_never_raises
         [where w = fs_malformed and p = "''mcp_config.json''" and f = "''{''"
            and e = "PyExn JSONDecodeError ''Expecting property name''"]
  show ?thesis by blast
qed

text \<open>
  Claim C3. If the given path does not exist, the fallback file
  \<^verbatim>\<open>mcp_config_minimal.json\<close> exists and reading it succeeds with the registry \<open>r\<close>, then
  \<^verbatim>\<open>load_mcp_config\<close> returns \<open>r\<close>, which is what \<^verbatim>\<open>load_mcp_servers\<close> built from the
  fallback file.
\<close>

theorem load_mcp_config_uses_fallback:
  assumes "\<not> path_exists w p"
    and "path_exists w ''mcp_config_minimal.json''"
    and "snd (load_existing w ''mcp_config_minimal.json'') = Inr r"
  shows "snd (load_mcp_config w p) = Inr r
     \<and> load_mcp_servers w ''mcp_config_minimal.json'' = Inr r"
proof -
  from assms(1,2) have "p \<noteq> ''mcp_config_minimal.json''" by auto
  with assms show ?thesis
    by (simp add: load_mcp_config_result load_existing_returns)
qed

theorem load_mcp_config_uses_fallback_witness:
  "\<not> path_exists fs_fallback ''mcp_config.json''
   \<and> path_exists fs_fallback ''mcp_config_minimal.json''
   \<and> snd (load_existing fs_fallback ''mcp_config_minimal.json'') = Inr [''fetch'']
   \<and> snd (load_mcp_config fs_fallback ''mcp_config.json'') = Inr [''fetch'']"
proof -
  have a: "\<not> path_exists fs_fallback ''mcp_config.json''"
    and b: "path_exists fs_fallback ''mcp_config_minimal.json''"
    by (simp_all add: fs_fallback_def)
  have c: "snd (load_existing fs_fallback ''mcp_config_minimal.json'') = Inr [''fetch'']"
    by (simp add: load_existing_def fs_fallback_def outcome_simps)
  from load_mcp_config_uses_fallback [OF a b c] a b c show ?thesis by simp
qed

text \<open>
  Claim C4. \<^verbatim>\<open>load_mcp_config\<close> is a total function (its recursion is shown to end where
  it is defined), and a run substitutes the fallback path at most once: the line that
  announces the substitution, logged just before the recursive call, occurs at most
  once among the effects of a run, and never in a run that starts on the fallback path.
  When neither the given path nor the fallback file exists, the function logs the two
  warnings and returns the empty list.
\<close>

theorem load_mcp_config_one_fallback:
  "count_list (fst (load_mcp_config w p)) (Log INFO TryingFallback) \<le> 1 \<and>
   count_list (fst (load_mcp_config w ''mcp_config_minimal.json'')) (Log INFO TryingFallback) = 0 \<and>
   (\<not> path_exists w p \<and> \<not> path_exists w ''mcp_config_minimal.json'' \<longrightarrow>
      load_mcp_config w p =
        ([Log WARNING (ConfigNotFound p), Log WARNING NoConfigFound], Inr []))"
proof (intro conjI impI)
  show "count_list (fst (load_mcp_config w ''mcp_config_minimal.json''))
          (Log INFO TryingFallback) = 0"
    by (rule count_fallback_existing)
next
  assume "\<not> path_exists w p \<and> \<not> path_exists w ''mcp_config_minimal.json''"
  then show "load_mcp_config w p =
      ([Log WARNING (ConfigNotFound p), Log WARNING NoConfigFound], Inr [])"
    by (simp add: load_mcp_config_absent logged_def effect_then_def return_ok_def)
next
  show "count_list (fst (load_mcp_config w p)) (Log INFO TryingFallback) \<le> 1"
  proof (cases "path_exists w p")
    case True
    have "Log INFO TryingFallback \<notin> set (fst (load_mcp_config w p))"
      unfolding load_mcp_config_exists [OF True]
      by (rule fst_try_load_no_fallback) (rule load_existing_no_fallback)
    then show ?thesis by (simp add: count_list_0_iff)
  next
    case absent: False
    show ?thesis
    proof (cases "p \<noteq> ''mcp_config_minimal.json''
        \<and> path_exists w ''mcp_config_minimal.json''")
      case True
      with absent show ?thesis
        by (simp add: load_mcp_config_substitute outcome_simps count_fallback_existing)
    next
      case False
      with absent show ?thesis by (auto simp: load_mcp_config_absent outcome_simps)
    qed
  qed
qed

text \<open>\<^verbatim>\<open>load_mcp_config("missing.json")\<close> with no fallback file.\<close>

theorem load_mcp_config_one_fallback_witness:
  "\<not> path_exists fs_empty ''missing.json''
   \<and> \<not> path_exists fs_empty ''mcp_config_minimal.json''
   \<and> load_mcp_config fs_empty ''missing.json'' =
       ([Log WARNING (ConfigNotFound ''missing.json''), Log WARNING NoConfigFound], Inr [])
   \<and> count_list (fst (load_mcp_config fs_fallback ''mcp_config.json''))
       (Log INFO TryingFallback) \<le> 1"
proof -
  have h: "\<not> path_exists fs_empty ''missing.json''
     \<and> \<not> path_exists fs_empty ''mcp_config_minimal.json''"
    by (simp add: fs_empty_def)
  with load_mcp_config_one_fallback [of fs_empty "''missing.json''"]
    load_mcp_config_one_fallback [of fs_fallback "''mcp_config.json''"]
  show ?thesis by blast
qed

section \<open>The search tool: results\<close>

lemma provider_calls_append:
  "provider_calls (xs @ ys) = provider_calls xs @ provider_calls ys"
  by (induction xs rule: provider_calls.induct) simp_all

text \<open>The \<^verbatim>\<open>except\<close> clause turns every exception of the block into the error response.\<close>

lemma snd_try_search:
  "snd (try_except body (search_handlers rid q)) =
     (case snd body of
        Inl e \<Rightarrow>
          Inr \<lparr>query = q, results = [], answer = Some (''Search failed: '' @ exn_str e)\<rparr>
      | Inr r \<Rightarrow> Inr r)"
  by (simp add: try_except_def search_handlers_def outcome_simps Let_def split: sum.splits)

lemma calls_try_search:
  "provider_calls (fst (try_except body (search_handlers rid q))) = provider_calls (fst body)"
  by (simp add: try_except_def search_handlers_def outcome_simps Let_def provider_calls_append
      split: sum.splits)

lemma snd_tavily_search:
  "snd (tavily_search pyd c rid q) =
     (case snd (tavily_search_try pyd c rid q) of
        Inl e \<Rightarrow>
          Inr \<lparr>query = q, results = [], answer = Some (''Search failed: '' @ exn_str e)\<rparr>
      | Inr r \<Rightarrow> Inr r)"
  by (simp add: tavily_search_def outcome_simps snd_try_search)

text \<open>The \<^verbatim>\<open>try\<close> block: what it raises, what it returns, what it sends.\<close>

lemma tavily_search_try_raised:
  assumes "c \<lparr>kw_query = q, search_depth = ''advanced'', include_answer = True,
               max_results = 5, include_raw_content = True\<rparr> = Inl e"
  shows "snd (tavily_search_try pyd c rid q) = Inl e"
  using assms by (simp add: tavily_search_try_def outcome_simps Let_def)

lemma new_SearchResponse_query: "new_SearchResponse pyd q rs a = Inr r \<Longrightarrow> query r = q"
  by (auto simp: new_SearchResponse_def split: option.splits)

lemma tavily_search_try_query:
  assumes "snd (tavily_search_try pyd c rid q) = Inr r"
  shows "query r = q"
  using assms
  by (auto simp: tavily_search_try_def outcome_simps Let_def
      dest: new_SearchResponse_query split: sum.splits if_splits)

lemma process_results_calls:
  "provider_calls (fst (process_results pyd rid i items acc)) = []"
  by (induction items arbitrary: i acc)
    (simp_all add: outcome_simps provider_calls_append split: sum.splits)

lemma tavily_search_try_calls:
  "provider_calls (fst (tavily_search_try pyd c rid q)) =
     [\<lparr>kw_query = q, search_depth = ''advanced'', include_answer = True,
       max_results = 5, include_raw_content = True\<rparr>]"
  by (simp add: tavily_search_try_def outcome_simps Let_def provider_calls_append
      process_results_calls split: sum.splits)

lemma tavily_search_try_cong:
  assumes "c \<lparr>kw_query = q, search_depth = ''advanced'', include_answer = True,
               max_results = 5, include_raw_content = True\<rparr>
         = c' \<lparr>kw_query = q, search_depth = ''advanced'', include_answer = True,
               max_results = 5, include_raw_content = True\<rparr>"
  shows "tavily_search_try pyd c rid q = tavily_search_try pyd c' rid q"
  using assms by (simp add: tavily_search_try_def Let_def)

text \<open>
  Claim C2. For every query, \<^verbatim>\<open>tavily_search\<close> returns a response and raises nothing,
  whatever the provider call does. When the provider call raises an exception \<open>e\<close>, the
  response has no results and its answer is \<^verbatim>\<open>Search failed: \<close> followed by \<^verbatim>\<open>str(e)\<close>.
\<close>

theorem tavily_search_failure:
  "(\<exists>r. snd (tavily_search pyd c rid q) = Inr r) \<and>
   (c \<lparr>kw_query = q, search_depth = ''advanced'', include_answer = True,
        max_results = 5, include_raw_content = True\<rparr> = Inl e \<longrightarrow>
    snd (tavily_search pyd c rid q) =
      Inr \<lparr>query = q, results = [], answer = Some (''Search failed: '' @ exn_str e)\<rparr>)"
proof (intro conjI impI)
  show "\<exists>r. snd (tavily_search pyd c rid q) = Inr r"
    by (simp add: snd_tavily_search split: sum.splits)
next
  assume "c \<lparr>kw_query = q, search_depth = ''advanced'', include_answer = True,
        max_results = 5, include_raw_content = True\<rparr> = Inl e"
  then have "snd (tavily_search_try pyd c rid q) = Inl e"
    by (rule tavily_search_try_raised)
  then show "snd (tavily_search pyd c rid q) =
      Inr \<lparr>query = q, results = [], answer = Some (''Search failed: '' @ exn_str e)\<rparr>"
    by (simp add: snd_tavily_search)
qed

text \<open>\<^verbatim>\<open>tavily_search("x")\<close> against a provider that raises a connection error.\<close>

theorem tavily_search_failure_witness:
  "provider_down \<lparr>kw_query = ''x'', search_depth = ''advanced'', include_answer = True,
        max_results = 5, include_raw_content = True\<rparr>
     = Inl (PyExn (OtherException ''ConnectionError'') ''connection refused'')
   \<and> snd (tavily_search pydantic_plain provider_down ''20260101_120000_000000'' ''x'') =
       Inr \<lparr>query = ''x'', results = [], answer = Some ''Search failed: connection refused''\<rparr>"
proof -
  have h: "provider_down \<lparr>kw_query = ''x'', search_depth = ''advanced'', include_answer = True,
        max_results = 5, include_raw_content = True\<rparr>
     = Inl (PyExn (OtherException ''ConnectionError'') ''connection refused'')"
    by (simp add: provider_down_def)
  with tavily_search_failure
         [where c = provider_down and q = "''x''" and rid = "''20260101_120000_000000''"
            and pyd = pydantic_plain
            and e = "PyExn (OtherException ''ConnectionError'') ''connection refused''"]
  show ?thesis by simp
qed

text \<open>
  Claim C5. For every query and every outcome of the provider call, \<^verbatim>\<open>tavily_search\<close>
  returns a response whose \<^verbatim>\<open>query\<close> field is the query it was given.
\<close>

theorem tavily_search_echoes_query:
  "\<exists>r. snd (tavily_search pyd c rid q) = Inr r \<and> query r = q"
proof (cases "snd (tavily_search_try pyd c rid q)")
  case (Inl e)
  then show ?thesis by (simp add: snd_tavily_search)
next
  case (Inr r)
  then show ?thesis by (simp add: snd_tavily_search tavily_search_try_query)
qed

theorem tavily_search_echoes_query_witness:
  "(\<exists>r. snd (tavily_search pydantic_plain provider_down ''20260101_120000_000000'' ''x'')
          = Inr r
        \<and> query r = ''x'')
   \<and> (\<exists>r. snd (tavily_search pydantic_plain provider_three ''20260101_120000_000000''
              ''quantum computing'') = Inr r
        \<and> query r = ''quantum computing'')
   \<and> (\<exists>r. snd (tavily_search pydantic_plain provider_null_title ''20260101_120000_000000''
              ''x'') = Inr r
        \<and> query r = ''x'')"
  using tavily_search_echoes_query
      [of pydantic_plain provider_down "''20260101_120000_000000''" "''x''"]
    tavily_search_echoes_query
      [of pydantic_plain provider_three "''20260101_120000_000000''" "''quantum computing''"]
    tavily_search_echoes_query
      [of pydantic_plain provider_null_title "''20260101_120000_000000''" "''x''"]
  by simp









text \<open>
  Claim C7. For every query, \<^verbatim>\<open>tavily_search\<close> calls the provider with the query,
  search depth \<^verbatim>\<open>advanced\<close>, \<^verbatim>\<open>include_answer\<close> true, \<^verbatim>\<open>max_results\<close> 5 and
  \<^verbatim>\<open>include_raw_content\<close> true, and with nothing else: a run sends exactly that one
  request; two providers that agree on that request give the same run, so a run reads
  the provider at no other arguments; and the run does read the provider there, since
  an exception raised for that request is the one the response reports.
\<close>

theorem tavily_search_kwargs:
  "provider_calls (fst (tavily_search pyd c rid q)) =
     [\<lparr>kw_query = q, search_depth = ''advanced'', include_answer = True,
       max_results = 5, include_raw_content = True\<rparr>]
   \<and> (c \<lparr>kw_query = q, search_depth = ''advanced'', include_answer = True,
          max_results = 5, include_raw_content = True\<rparr>
       = c' \<lparr>kw_query = q, search_depth = ''advanced'', include_answer = True,
            max_results = 5, include_raw_content = True\<rparr> \<longrightarrow>
       tavily_search pyd c rid q = tavily_search pyd c' rid q)
   \<and> (c \<lparr>kw_query = q, search_depth = ''advanced'', include_answer = True,
          max_results = 5, include_raw_content = True\<rparr> = Inl e \<longrightarrow>
       snd (tavily_search pyd c rid q) =
         Inr \<lparr>query = q, results = [], answer = Some (''Search failed: '' @ exn_str e)\<rparr>)"
proof (intro conjI impI)
  show "provider_calls (fst (tavily_search pyd c rid q)) =
     [\<lparr>kw_query = q, search_depth = ''advanced'', include_answer = True,
       max_results = 5, include_raw_content = True\<rparr>]"
    by (simp add: tavily_search_def outcome_simps calls_try_search tavily_search_try_calls)
next
  assume "c \<lparr>kw_query = q, search_depth = ''advanced'', include_answer = True,
          max_results = 5, include_raw_content = True\<rparr>
       = c' \<lparr>kw_query = q, search_depth = ''advanced'', include_answer = True,
            max_results = 5, include_raw_content = True\<rparr>"
  then have "tavily_search_try pyd c rid q = tavily_search_try pyd c' rid q"
    by (rule tavily_search_try_cong)
  then show "tavily_search pyd c rid q = tavily_search pyd c' rid q"
    by (simp add: tavily_search_def)
next
  assume "c \<lparr>kw_query = q, search_depth = ''advanced'', include_answer = True,
          max_results = 5, include_raw_content = True\<rparr> = Inl e"
  then have "snd (tavily_search_try pyd c rid q) = Inl e"
    by (rule tavily_search_try_raised)
  then show "snd (tavily_search pyd c rid q) =
         Inr \<lparr>query = q, results = [], answer = Some (''Search failed: '' @ exn_str e)\<rparr>"
    by (simp add: snd_tavily_search)
qed

text \<open>
  A provider that answers the fixed request only gives the run of the provider it
  answers for; a provider that is down is read at the fixed request.
\<close>

theorem tavily_search_kwargs_witness:
  "provider_calls
     (fst (tavily_search pydantic_plain provider_three ''20260101_120000_000000''
        ''quantum computing'')) =
     [\<lparr>kw_query = ''quantum computing'', search_depth = ''advanced'', include_answer = True,
       max_results = 5, include_raw_content = True\<rparr>]
   \<and> tavily_search pydantic_plain provider_three ''20260101_120000_000000''
        ''quantum computing''
     = tavily_search pydantic_plain provider_picky ''20260101_120000_000000''
        ''quantum computing''
   \<and> snd (tavily_search pydantic_plain provider_down ''20260101_120000_000000''
        ''quantum computing'') =
       Inr \<lparr>query = ''quantum computing'', results = [],
            answer = Some ''Search failed: connection refused''\<rparr>"
proof -
  have same: "provider_three \<lparr>kw_query = ''quantum computing'', search_depth = ''advanced'',
        include_answer = True, max_results = 5, include_raw_content = True\<rparr>
      = provider_picky \<lparr>kw_query = ''quantum computing'', search_depth = ''advanced'',
        include_answer = True, max_results = 5, include_raw_content = True\<rparr>"
    by (simp add: provider_picky_def)
  have down: "provider_down \<lparr>kw_query = ''quantum computing'', search_depth = ''advanced'',
        include_answer = True, max_results = 5, include_raw_content = True\<rparr>
      = Inl (PyExn (OtherException ''ConnectionError'') ''connection refused'')"
    by (simp add: provider_down_def)
  note three =
    tavily_search_kwargs
      [where c = provider_three and c' = provider_picky and q = "''quantum computing''"
         and rid = "''20260101_120000_000000''" and pyd = pydantic_plain
         and e = "PyExn (OtherException ''ConnectionError'') ''connection refused''"]
  note failing =
    tavily_search_kwargs
      [where c = provider_down and c' = provider_down and q = "''quantum computing''"
         and rid = "''20260101_120000_000000''" and pyd = pydantic_plain
         and e = "PyExn (OtherException ''ConnectionError'') ''connection refused''"]
  have 1: "provider_calls
     (fst (tavily_search pydantic_plain provider_three ''20260101_120000_000000''
        ''quantum computing'')) =
     [\<lparr>kw_query = ''quantum computing'', search_depth = ''advanced'', include_answer = True,
       max_results = 5, include_raw_content = True\<rparr>]"
    using three by (rule conjunct1)
  have 2: "tavily_search pydantic_plain provider_three ''20260101_120000_000000''
        ''quantum computing''
     = tavily_search pydantic_plain provider_picky ''20260101_120000_000000''
        ''quantum computing''"
    using three [THEN conjunct2, THEN conjunct1] same by (rule mp)
  have 3: "snd (tavily_search pydantic_plain provider_down ''20260101_120000_000000''
        ''quantum computing'') =
       Inr \<lparr>query = ''quantum computing'', results = [],
            answer = Some (''Search failed: ''
              @ exn_str (PyExn (OtherException ''ConnectionError'') ''connection refused''))\<rparr>"
    using failing [THEN conjunct2, THEN conjunct2] down by (rule mp)
  from 1 2 3 show ?thesis by simp
qed

section \<open>Startup: results\<close>

lemma snd_log_toolsets: "snd (log_toolsets w i xs k) = snd k"
  by (induction xs arbitrary: i) (simp_all add: outcome_simps)

lemma fst_check_environment_no_server:
  "UvicornRun host port \<notin> set (fst (check_environment env))"
  by (simp add: check_environment_def outcome_simps)

lemma snd_check_environment:
  "snd (check_environment env) =
     (if missing_keys env \<noteq> [] then
        Inl (PyExn ValueError
          (''Missing required environment variables: '' @ join '', '' (missing_keys env)))
      else Inr ())"
  by (simp add: check_environment_def outcome_simps)

text \<open>With a key missing, the module body ends at the check, and so does the program.\<close>

lemma agent_module_aborts:
  assumes "missing_keys env \<noteq> []"
  shows "agent_module w env =
     (fst (check_environment env),
      Inl (PyExn ValueError
        (''Missing required environment variables: '' @ join '', '' (missing_keys env))))"
  using assms by (simp add: agent_module_def seq_def snd_check_environment)

lemma run_main_aborts:
  assumes "missing_keys env \<noteq> []"
  shows "run_main w env =
     (fst (check_environment env),
      Inl (PyExn ValueError
        (''Missing required environment variables: '' @ join '', '' (missing_keys env))))"
  using assms by (simp add: run_main_def agent_module_aborts seq_def)

lemma snd_initialize_model:
  "snd (initialize_model env) =
     Inr (if use_llm_farm env then
            OpenAIChatModel ''gpt-4o-mini''
              \<lparr>base_url = llm_farm_url env,
               api_key = ''dummy'',
               default_headers =
                 [(''genaiplatform-farm-subscription-key'', os_getenv env ''LLM_FARM_API_KEY'')],
               default_query = [(''api-version'', ''2024-08-01-preview'')]\<rparr>
          else ModelName ''openai:gpt-4o-mini'')"
  by (simp add: initialize_model_def outcome_simps Let_def)

text \<open>With no key missing, the module body runs to its end and the server is started.\<close>

lemma agent_module_starts:
  assumes "missing_keys env = []"
  shows "\<exists>g. snd (agent_module w env) = Inr g
     \<and> model g = (if use_llm_farm env then
            OpenAIChatModel ''gpt-4o-mini''
              \<lparr>base_url = llm_farm_url env,
               api_key = ''dummy'',
               default_headers =
                 [(''genaiplatform-farm-subscription-key'', os_getenv env ''LLM_FARM_API_KEY'')],
               default_query = [(''api-version'', ''2024-08-01-preview'')]\<rparr>
          else ModelName ''openai:gpt-4o-mini'')"
proof -
  obtain r where r: "snd (load_mcp_config w ''mcp_config.json'') = Inr r"
    using load_mcp_config_returns by blast
  with assms show ?thesis
    by (simp add: agent_module_def outcome_simps snd_check_environment snd_log_toolsets
        snd_initialize_model Let_def)
qed

lemma run_main_starts:
  assumes "missing_keys env = []"
  shows "snd (run_main w env) = Inr ()
     \<and> last (fst (run_main w env)) = UvicornRun ''0.0.0.0'' 8000"
proof -
  obtain g where "snd (agent_module w env) = Inr g"
    using agent_module_starts [OF assms] by blast
  then show ?thesis by (simp add: run_main_def outcome_simps)
qed

lemma missing_keys_iff:
  "missing_keys env = [] \<longleftrightarrow>
     \<not> not_set env (if use_llm_farm env then ''LLM_FARM_API_KEY'' else ''OPENAI_API_KEY'')
     \<and> \<not> not_set env ''TAVILY_API_KEY''"
  by (simp add: missing_keys_def required_keys_def)

text \<open>The backend flag of the concrete environments.\<close>

lemma use_llm_farm_env_farm_no_url: "use_llm_farm env_farm_no_url"
  by (simp add: use_llm_farm_def os_getenv_default_def env_farm_no_url_def lower_def
      lower_char_def)

lemma use_llm_farm_env_farm_no_key: "use_llm_farm env_farm_no_key"
  by (simp add: use_llm_farm_def os_getenv_default_def env_farm_no_key_def lower_def
      lower_char_def)

lemma use_llm_farm_env_openai_no_tavily: "\<not> use_llm_farm env_openai_no_tavily"
  by (simp add: use_llm_farm_def os_getenv_default_def env_openai_no_tavily_def lower_def
      lower_char_def)

lemma lower_True: "lower ''True'' = ''true''"
  by code_simp

lemma use_llm_farm_env_farm_no_tavily: "use_llm_farm env_farm_no_tavily"
  by (simp add: use_llm_farm_def os_getenv_default_def env_farm_no_tavily_def lower_True)

text \<open>
  Claim C8. Whichever backend is selected, if \<^verbatim>\<open>TAVILY_API_KEY\<close> is absent from the
  environment, the key is among the missing ones, the module body raises \<^verbatim>\<open>ValueError\<close>
  with the message that lists them, the program ends with that exception, and no
  server is started in the run.
\<close>

theorem missing_tavily_key_aborts:
  assumes "os_getenv env ''TAVILY_API_KEY'' = None"
  shows "''TAVILY_API_KEY'' \<in> set (missing_keys env)
     \<and> snd (agent_module w env) =
         Inl (PyExn ValueError
           (''Missing required environment variables: '' @ join '', '' (missing_keys env)))
     \<and> snd (run_main w env) =
         Inl (PyExn ValueError
           (''Missing required environment variables: '' @ join '', '' (missing_keys env)))
     \<and> (\<forall>host port. UvicornRun host port \<notin> set (fst (run_main w env)))"
proof -
  from assms have m: "''TAVILY_API_KEY'' \<in> set (missing_keys env)"
    by (simp add: missing_keys_def required_keys_def not_set_def)
  then have ne: "missing_keys env \<noteq> []" by auto
  show ?thesis
    using m by (simp add: agent_module_aborts [OF ne] run_main_aborts [OF ne]
        fst_check_environment_no_server)
qed

text \<open>Each backend with its own key set and no search key.\<close>

theorem missing_tavily_key_aborts_witness:
  "os_getenv env_openai_no_tavily ''TAVILY_API_KEY'' = None
   \<and> snd (run_main fs_empty env_openai_no_tavily) =
       Inl (PyExn ValueError ''Missing required environment variables: TAVILY_API_KEY'')
   \<and> UvicornRun ''0.0.0.0'' 8000 \<notin> set (fst (run_main fs_empty env_openai_no_tavily))
   \<and> os_getenv env_farm_no_tavily ''TAVILY_API_KEY'' = None
   \<and> snd (run_main fs_empty env_farm_no_tavily) =
       Inl (PyExn ValueError ''Missing required environment variables: TAVILY_API_KEY'')
   \<and> UvicornRun ''0.0.0.0'' 8000 \<notin> set (fst (run_main fs_empty env_farm_no_tavily))"
proof -
  have h: "os_getenv env_openai_no_tavily ''TAVILY_API_KEY'' = None"
    by (simp add: os_getenv_def env_openai_no_tavily_def)
  have m: "missing_keys env_openai_no_tavily = [''TAVILY_API_KEY'']"
    by (simp add: missing_keys_def required_keys_def use_llm_farm_env_openai_no_tavily)
      (simp add: not_set_def os_getenv_def env_openai_no_tavily_def)
  have h': "os_getenv env_farm_no_tavily ''TAVILY_API_KEY'' = None"
    by (simp add: os_getenv_def env_farm_no_tavily_def)
  have m': "missing_keys env_farm_no_tavily = [''TAVILY_API_KEY'']"
    by (simp add: missing_keys_def required_keys_def use_llm_farm_env_farm_no_tavily)
      (simp add: not_set_def os_getenv_def env_farm_no_tavily_def)
  from missing_tavily_key_aborts [OF h, of fs_empty]
    missing_tavily_key_aborts [OF h', of fs_empty] h h' m m'
  show ?thesis by simp
qed

text \<open>
  Claim C9 as the specification states it fails: with the alternate backend selected,
  both keys set and \<^verbatim>\<open>LLM_FARM_URL\<close> absent, the program does not abort; the module body
  runs to its end and the server is started.
\<close>

theorem llm_farm_url_absent_not_fatal:
  "use_llm_farm env_farm_no_url
   \<and> os_getenv env_farm_no_url ''LLM_FARM_URL'' = None
   \<and> snd (run_main fs_empty env_farm_no_url) = Inr ()
   \<and> last (fst (run_main fs_empty env_farm_no_url)) = UvicornRun ''0.0.0.0'' 8000"
proof -
  have "missing_keys env_farm_no_url = []"
    by (simp add: missing_keys_iff use_llm_farm_env_farm_no_url)
      (simp add: not_set_def os_getenv_def env_farm_no_url_def)
  from run_main_starts [OF this] use_llm_farm_env_farm_no_url show ?thesis
    by (simp add: os_getenv_def env_farm_no_url_def)
qed

text \<open>
  Claim C9, amended. When the alternate backend is selected, startup aborts with
  \<^verbatim>\<open>ValueError\<close> if \<^verbatim>\<open>LLM_FARM_API_KEY\<close> or \<^verbatim>\<open>TAVILY_API_KEY\<close> is unset or empty. When both
  are set, startup completes and the server is started, whether or not \<^verbatim>\<open>LLM_FARM_URL\<close>
  is set: the endpoint of the model's client is the value of \<^verbatim>\<open>LLM_FARM_URL\<close>, and the
  built-in URL when the variable is absent.
\<close>

theorem farm_startup_requirements:
  assumes "use_llm_farm env"
  shows "(not_set env ''LLM_FARM_API_KEY'' \<or> not_set env ''TAVILY_API_KEY'' \<longrightarrow>
           snd (run_main w env) =
             Inl (PyExn ValueError
               (''Missing required environment variables: '' @ join '', '' (missing_keys env))))
     \<and> (\<not> not_set env ''LLM_FARM_API_KEY'' \<and> \<not> not_set env ''TAVILY_API_KEY'' \<longrightarrow>
           snd (run_main w env) = Inr ()
           \<and> last (fst (run_main w env)) = UvicornRun ''0.0.0.0'' 8000
           \<and> (\<exists>g c. snd (agent_module w env) = Inr g
                \<and> model g = OpenAIChatModel ''gpt-4o-mini'' c
                \<and> base_url c =
                    (case os_getenv env ''LLM_FARM_URL'' of
                       None \<Rightarrow> ''https://aoai-farm.bosch-temp.com/api/openai/deployments/askbosch-prod-farm-openai-gpt-4o-mini-2024-07-18/''
                     | Some u \<Rightarrow> u)))"
proof (intro conjI impI)
  assume "not_set env ''LLM_FARM_API_KEY'' \<or> not_set env ''TAVILY_API_KEY''"
  with assms have "missing_keys env \<noteq> []" by (auto simp: missing_keys_iff)
  then show "snd (run_main w env) =
             Inl (PyExn ValueError
               (''Missing required environment variables: '' @ join '', '' (missing_keys env)))"
    by (simp add: run_main_aborts)
next
  assume "\<not> not_set env ''LLM_FARM_API_KEY'' \<and> \<not> not_set env ''TAVILY_API_KEY''"
  with assms have ok: "missing_keys env = []" by (simp add: missing_keys_iff)
  from run_main_starts [OF ok, of w]
  show "snd (run_main w env) = Inr ()"
    and "last (fst (run_main w env)) = UvicornRun ''0.0.0.0'' 8000"
    by simp_all
  from agent_module_starts [OF ok, of w] assms
  show "\<exists>g c. snd (agent_module w env) = Inr g
                \<and> model g = OpenAIChatModel ''gpt-4o-mini'' c
                \<and> base_url c =
                    (case os_getenv env ''LLM_FARM_URL'' of
                       None \<Rightarrow> ''https://aoai-farm.bosch-temp.com/api/openai/deployments/askbosch-prod-farm-openai-gpt-4o-mini-2024-07-18/''
                     | Some u \<Rightarrow> u)"
    by (auto simp: llm_farm_url_def os_getenv_default_def os_getenv_def)
qed

text \<open>The alternate backend without its API key, and with both keys and no URL.\<close>

theorem farm_startup_requirements_witness:
  "use_llm_farm env_farm_no_key
   \<and> not_set env_farm_no_key ''LLM_FARM_API_KEY''
   \<and> snd (run_main fs_empty env_farm_no_key) =
       Inl (PyExn ValueError ''Missing required environment variables: LLM_FARM_API_KEY'')
   \<and> use_llm_farm env_farm_no_url
   \<and> \<not> not_set env_farm_no_url ''LLM_FARM_API_KEY''
   \<and> \<not> not_set env_farm_no_url ''TAVILY_API_KEY''
   \<and> (\<exists>g c. snd (agent_module fs_empty env_farm_no_url) = Inr g
        \<and> model g = OpenAIChatModel ''gpt-4o-mini'' c
        \<and> base_url c =
            ''https://aoai-farm.bosch-temp.com/api/openai/deployments/askbosch-prod-farm-openai-gpt-4o-mini-2024-07-18/'')"
proof -
  have a: "not_set env_farm_no_key ''LLM_FARM_API_KEY''"
    by (simp add: not_set_def os_getenv_def env_farm_no_key_def)
  have m: "missing_keys env_farm_no_key = [''LLM_FARM_API_KEY'']"
    by (simp add: missing_keys_def required_keys_def use_llm_farm_env_farm_no_key)
      (simp add: not_set_def os_getenv_def env_farm_no_key_def)
  have b: "\<not> not_set env_farm_no_url ''LLM_FARM_API_KEY''
      \<and> \<not> not_set env_farm_no_url ''TAVILY_API_KEY''"
    by (simp add: not_set_def os_getenv_def env_farm_no_url_def)
  have u: "os_getenv env_farm_no_url ''LLM_FARM_URL'' = None"
    by (simp add: os_getenv_def env_farm_no_url_def)
  from farm_startup_requirements [OF use_llm_farm_env_farm_no_key, of fs_empty] a m
  have 1: "snd (run_main fs_empty env_farm_no_key) =
       Inl (PyExn ValueError ''Missing required environment variables: LLM_FARM_API_KEY'')"
    by simp
  from farm_startup_requirements [OF use_llm_farm_env_farm_no_url, of fs_empty] b u
  have 2: "\<exists>g c. snd (agent_module fs_empty env_farm_no_url) = Inr g
        \<and> model g = OpenAIChatModel ''gpt-4o-mini'' c
        \<and> base_url c =
            ''https://aoai-farm.bosch-temp.com/api/openai/deployments/askbosch-prod-farm-openai-gpt-4o-mini-2024-07-18/''"
    by simp
  from a b 1 2 use_llm_farm_env_farm_no_key use_llm_farm_env_farm_no_url
  show ?thesis by blast
qed

text \<open>
  Claim C10. The alternate backend is selected exactly when \<^verbatim>\<open>USE_LLM_FARM\<close> is set and
  its value, lower-cased, is \<^verbatim>\<open>true\<close>. When it is not selected (the variable is unset or
  has any other value), the keys required are those of the standard backend,
  \<^verbatim>\<open>initialize_model\<close> returns the string \<^verbatim>\<open>openai:gpt-4o-mini\<close>, and that string is
  the global \<^verbatim>\<open>model\<close> of a module body that ran to its end; when it is selected,
  \<^verbatim>\<open>initialize_model\<close> returns an \<^verbatim>\<open>OpenAIChatModel\<close> for \<^verbatim>\<open>gpt-4o-mini\<close>.
\<close>

theorem backend_selection:
  "(use_llm_farm env \<longleftrightarrow> (\<exists>v. os_getenv env ''USE_LLM_FARM'' = Some v \<and> lower v = ''true''))
   \<and> (\<not> use_llm_farm env \<longrightarrow>
        snd (initialize_model env) = Inr (ModelName ''openai:gpt-4o-mini'')
        \<and> required_keys env = [''OPENAI_API_KEY'', ''TAVILY_API_KEY''])
   \<and> (use_llm_farm env \<longrightarrow>
        (\<exists>c. snd (initialize_model env) = Inr (OpenAIChatModel ''gpt-4o-mini'' c))
        \<and> required_keys env = [''LLM_FARM_API_KEY'', ''TAVILY_API_KEY''])
   \<and> (\<not> use_llm_farm env \<and> snd (agent_module w env) = Inr g \<longrightarrow>
        model g = ModelName ''openai:gpt-4o-mini'')"
proof -
  have "lower ''false'' \<noteq> ''true''"
    by (simp add: lower_def lower_char_def)
  then have sel: "use_llm_farm env \<longleftrightarrow>
      (\<exists>v. os_getenv env ''USE_LLM_FARM'' = Some v \<and> lower v = ''true'')"
    by (simp add: use_llm_farm_def os_getenv_default_def os_getenv_def split: option.splits)
  have "model g = ModelName ''openai:gpt-4o-mini''"
    if n: "\<not> use_llm_farm env" and a: "snd (agent_module w env) = Inr g"
  proof -
    have "missing_keys env = []"
    proof (rule ccontr)
      assume "missing_keys env \<noteq> []"
      from agent_module_aborts [OF this, of w] a show False by simp
    qed
    from agent_module_starts [OF this, of w] a n show ?thesis by auto
  qed
  with sel show ?thesis
    by (simp add: snd_initialize_model required_keys_def)
qed

text \<open>
  \<^verbatim>\<open>True\<close> selects the alternate backend; \<^verbatim>\<open>1\<close>, \<^verbatim>\<open>yes\<close> and an unset variable select
  the standard one.
\<close>

theorem backend_selection_witness:
  "use_llm_farm env_farm_no_tavily
   \<and> \<not> use_llm_farm [''USE_LLM_FARM'' \<mapsto> ''1'']
   \<and> \<not> use_llm_farm [''USE_LLM_FARM'' \<mapsto> ''yes'']
   \<and> \<not> use_llm_farm env_openai
   \<and> snd (initialize_model env_openai) = Inr (ModelName ''openai:gpt-4o-mini'')
   \<and> snd (initialize_model [''USE_LLM_FARM'' \<mapsto> ''1'']) = Inr (ModelName ''openai:gpt-4o-mini'')
   \<and> (\<exists>g. snd (agent_module fs_empty env_openai) = Inr g
        \<and> model g = ModelName ''openai:gpt-4o-mini'')"
proof -
  note t = lower_True
  have o: "lower ''1'' \<noteq> ''true''" and y: "lower ''yes'' \<noteq> ''true''"
    by (simp_all add: lower_def)
  have 1: "use_llm_farm env_farm_no_tavily"
    using backend_selection [where env = env_farm_no_tavily and w = fs_empty, THEN conjunct1] t
    by (simp add: os_getenv_def env_farm_no_tavily_def)
  have 2: "\<not> use_llm_farm [''USE_LLM_FARM'' \<mapsto> ''1'']"
    using backend_selection
      [where env = "[''USE_LLM_FARM'' \<mapsto> ''1'']" and w = fs_empty, THEN conjunct1] o
    by (simp add: os_getenv_def)
  have 3: "\<not> use_llm_farm [''USE_LLM_FARM'' \<mapsto> ''yes'']"
    using backend_selection
      [where env = "[''USE_LLM_FARM'' \<mapsto> ''yes'']" and w = fs_empty, THEN conjunct1] y
    by (simp add: os_getenv_def)
  have 4: "\<not> use_llm_farm env_openai"
    using backend_selection [where env = env_openai and w = fs_empty, THEN conjunct1]
    by (simp add: os_getenv_def env_openai_def)
  have 5: "snd (initialize_model env_openai) = Inr (ModelName ''openai:gpt-4o-mini'')"
    using backend_selection
      [where env = env_openai and w = fs_empty, THEN conjunct2, THEN conjunct1] 4
    by simp
  have 6: "snd (initialize_model [''USE_LLM_FARM'' \<mapsto> ''1'']) =
      Inr (ModelName ''openai:gpt-4o-mini'')"
    using backend_selection
      [where env = "[''USE_LLM_FARM'' \<mapsto> ''1'']" and w = fs_empty,
        THEN conjunct2, THEN conjunct1] 2
    by simp
  have "missing_keys env_openai = []"
    by (simp add: missing_keys_iff 4) (simp add: not_set_def os_getenv_def env_openai_def)
  then obtain g where g: "snd (agent_module fs_empty env_openai) = Inr g"
    using agent_module_starts by blast
  with backend_selection [where env = env_openai and w = fs_empty and g = g] 4
  have "model g = ModelName ''openai:gpt-4o-mini''" by simp
  with g have 7: "\<exists>g. snd (agent_module fs_empty env_openai) = Inr g
        \<and> model g = ModelName ''openai:gpt-4o-mini''"
    by blast
  from 1 2 3 4 5 6 7 show ?thesis by simp
qed

end
